theory Spec2Isabelle
  imports Complex_Main "HOL-Library.Sublist" "HOL-Library.Multiset"
begin

section \<open>JavaScript values\<close>

text \<open>
  The dashboard (\<^verbatim>\<open>SequencerRealtime\<close>, the Excel-like view of \<^verbatim>\<open>src/src/index.js\<close>) works on
  what \<^verbatim>\<open>axios\<close> hands it: parsed JSON. A JavaScript number is a double: not-a-number,
  the two infinities, or a finite value. The finite ones are rationals; the program only
  tests them, compares them and subtracts two of them to read the sign of the
  difference, which for doubles is the sign of the exact difference.
\<close>

datatype jsnum = NaN | NegInf | Fin rat | PosInf

datatype json =
    JNull
  | JBool bool
  | JNum jsnum
  | JStr string
  | JArr "json list"
  | JObj "(string \<times> json) list"

text \<open>
  A value the program holds is a JSON value or \<^verbatim>\<open>undefined\<close> (\<open>None\<close>): reading a property
  an object does not have gives \<^verbatim>\<open>undefined\<close>, while an array that came out of a response
  never holds it.
\<close>

type_synonym jsval = "json option"

text \<open>
  The built-ins of the JavaScript runtime the program calls are parameters of the model:
  \<^verbatim>\<open>Date.parse\<close> and the conversion of a string to a number (both may answer \<open>NaN\<close>), the
  printing of a number, and \<^verbatim>\<open>String.prototype.toLowerCase\<close>.
\<close>

record runtime =
  dateParse :: "string \<Rightarrow> jsnum"
  stringToNumber :: "string \<Rightarrow> jsnum"
  numberToString :: "jsnum \<Rightarrow> string"
  toLowerCase :: "string \<Rightarrow> string"

text \<open>Truthiness (\<^verbatim>\<open>if (v)\<close>, \<^verbatim>\<open>!v\<close>, \<^verbatim>\<open>a && b\<close>, \<^verbatim>\<open>a || b\<close>).\<close>

fun truthy :: "jsval \<Rightarrow> bool" where
  "truthy None = False"
| "truthy (Some JNull) = False"
| "truthy (Some (JBool b)) = b"
| "truthy (Some (JNum n)) = (n \<noteq> NaN \<and> n \<noteq> Fin 0)"
| "truthy (Some (JStr s)) = (s \<noteq> [])"
| "truthy (Some (JArr xs)) = True"
| "truthy (Some (JObj kvs)) = True"

text \<open>\<^verbatim>\<open>a || b\<close> and \<^verbatim>\<open>a ?? b\<close>.\<close>

definition orElse :: "jsval \<Rightarrow> jsval \<Rightarrow> jsval" where
  "orElse a b = (if truthy a then a else b)"

definition isNullish :: "jsval \<Rightarrow> bool" where
  "isNullish v = (v = None \<or> v = Some JNull)"

definition nullish :: "jsval \<Rightarrow> jsval \<Rightarrow> jsval" where
  "nullish a b = (if isNullish a then b else a)"

text \<open>
  \<^verbatim>\<open>v.k\<close> for a value that is not \<^verbatim>\<open>null\<close>: an object's own property, and \<^verbatim>\<open>undefined\<close> on
  anything else (none of the property names this program reads is a built-in property of
  a string, number, boolean or array). \<^verbatim>\<open>v?.k\<close> is \<^verbatim>\<open>undefined\<close> on \<^verbatim>\<open>null\<close> and \<^verbatim>\<open>undefined\<close>
  too. Every plain \<^verbatim>\<open>v.k\<close> of the modelled code except \<^verbatim>\<open>r[h]\<close> in \<^verbatim>\<open>downloadCsv\<close> stands behind
  a truthiness test of \<^verbatim>\<open>v\<close>, so it is read with \<open>optGet\<close> as well.
\<close>

fun getProp :: "json \<Rightarrow> string \<Rightarrow> jsval" where
  "getProp (JObj kvs) k = map_of kvs k"
| "getProp v k = None"

definition optGet :: "jsval \<Rightarrow> string \<Rightarrow> jsval" where
  "optGet v k = (case v of None \<Rightarrow> None | Some JNull \<Rightarrow> None | Some o' \<Rightarrow> getProp o' k)"

text \<open>\<^verbatim>\<open>Array.prototype.join\<close> on strings.\<close>

fun joinWith :: "string \<Rightarrow> string list \<Rightarrow> string" where
  "joinWith sep [] = []"
| "joinWith sep [x] = x"
| "joinWith sep (x # y # ys) = x @ sep @ joinWith sep (y # ys)"

text \<open>
  \<^verbatim>\<open>String(v)\<close>, also what a template literal and \<^verbatim>\<open>Date.parse\<close> apply to an argument that
  is not a string: an array joins its elements with commas, \<^verbatim>\<open>null\<close> elements printing
  as nothing.
\<close>

fun jsonString :: "runtime \<Rightarrow> json \<Rightarrow> string" where
  "jsonString rt JNull = ''null''"
| "jsonString rt (JBool b) = (if b then ''true'' else ''false'')"
| "jsonString rt (JNum n) = numberToString rt n"
| "jsonString rt (JStr s) = s"
| "jsonString rt (JArr xs) =
     joinWith '','' (map (\<lambda>x. if x = JNull then [] else jsonString rt x) xs)"
| "jsonString rt (JObj kvs) = ''[object Object]''"

definition jsString :: "runtime \<Rightarrow> jsval \<Rightarrow> string" where
  "jsString rt v = (case v of None \<Rightarrow> ''undefined'' | Some j \<Rightarrow> jsonString rt j)"

text \<open>\<^verbatim>\<open>Number(v)\<close>.\<close>

definition toNumber :: "runtime \<Rightarrow> jsval \<Rightarrow> jsnum" where
  "toNumber rt v =
     (case v of
        None \<Rightarrow> NaN
      | Some JNull \<Rightarrow> Fin 0
      | Some (JBool b) \<Rightarrow> (if b then Fin 1 else Fin 0)
      | Some (JNum n) \<Rightarrow> n
      | Some (JStr s) \<Rightarrow> stringToNumber rt s
      | Some j \<Rightarrow> stringToNumber rt (jsonString rt j))"

text \<open>\<^verbatim>\<open>typeof v === 'number'\<close>, \<^verbatim>\<open>Number.isFinite\<close>, \<^verbatim>\<open>Number.isNaN\<close> (neither converts).\<close>

definition isNumber :: "jsval \<Rightarrow> bool" where
  "isNumber v = (case v of Some (JNum n) \<Rightarrow> True | _ \<Rightarrow> False)"

definition numberIsFinite :: "jsval \<Rightarrow> bool" where
  "numberIsFinite v = (case v of Some (JNum (Fin q)) \<Rightarrow> True | _ \<Rightarrow> False)"

definition numberIsNaN :: "jsval \<Rightarrow> bool" where
  "numberIsNaN v = (case v of Some (JNum NaN) \<Rightarrow> True | _ \<Rightarrow> False)"

text \<open>The number a value of type number holds.\<close>

definition numberOf :: "jsval \<Rightarrow> jsnum" where
  "numberOf v = (case v of Some (JNum n) \<Rightarrow> n | _ \<Rightarrow> NaN)"

text \<open>Subtraction of doubles, as far as the sign of the result goes.\<close>

fun jsSub :: "jsnum \<Rightarrow> jsnum \<Rightarrow> jsnum" where
  "jsSub NaN y = NaN"
| "jsSub x NaN = NaN"
| "jsSub (Fin a) (Fin b) = Fin (a - b)"
| "jsSub (Fin a) PosInf = NegInf"
| "jsSub (Fin a) NegInf = PosInf"
| "jsSub PosInf PosInf = NaN"
| "jsSub PosInf y = PosInf"
| "jsSub NegInf NegInf = NaN"
| "jsSub NegInf y = NegInf"

text \<open>\<^verbatim>\<open>x < y\<close> on numbers: false as soon as one of them is \<open>NaN\<close>.\<close>

fun jsLess :: "jsnum \<Rightarrow> jsnum \<Rightarrow> bool" where
  "jsLess NaN y = False"
| "jsLess x NaN = False"
| "jsLess (Fin a) (Fin b) = (a < b)"
| "jsLess x PosInf = (x \<noteq> PosInf)"
| "jsLess NegInf y = (y \<noteq> NegInf)"
| "jsLess x y = False"

section \<open>Row normalizer\<close>

text \<open>
  \<^verbatim>\<open>rowTimestamp(r)\<close>:
  \<^verbatim>\<open>const t = r?.wagonRaw?.time ?? r?.time ?? r?.finalizedAt ?? r?.createdAt ?? r?.ts ?? null;\<close>
  \<^verbatim>\<open>const parsed = t ? (typeof t === 'number' ? t : Date.parse(t)) : null;\<close>
  \<^verbatim>\<open>return Number.isFinite(parsed) && !Number.isNaN(parsed) ? parsed : (r?.id ? Number(r.id) : 0);\<close>
\<close>

definition rowTimestamp :: "runtime \<Rightarrow> json \<Rightarrow> jsnum" where
  "rowTimestamp rt r =
     (let t = nullish (optGet (optGet (Some r) ''wagonRaw'') ''time'')
               (nullish (optGet (Some r) ''time'')
                 (nullish (optGet (Some r) ''finalizedAt'')
                   (nullish (optGet (Some r) ''createdAt'')
                     (nullish (optGet (Some r) ''ts'') (Some JNull)))));
          parsed = (if truthy t
                    then (if isNumber t then t else Some (JNum (dateParse rt (jsString rt t))))
                    else Some JNull)
      in if numberIsFinite parsed \<and> \<not> numberIsNaN parsed then numberOf parsed
         else if truthy (optGet (Some r) ''id'') then toNumber rt (optGet (Some r) ''id'')
         else Fin 0)"

text \<open>
  \<^verbatim>\<open>Array.prototype.sort(cmp)\<close>. The comparator's answer \<open>v\<close> is read as ECMAScript reads it:
  \<open>NaN\<close> counts as \<open>0\<close>, and \<open>x\<close> goes behind \<open>y\<close> only when \<open>v > 0\<close>. The sort is stable
  (ECMAScript 2019), so with a consistent comparator its result is the one stable
  insertion computes; the model is that insertion sort. A comparator that answers \<open>NaN\<close>
  for some pairs is not consistent, and ECMAScript then leaves the order to the engine:
  there the model is one possible engine, not every engine. What is stated of the sort
  for arrays in general is therefore stated for arrays without a \<open>NaN\<close> timestamp; on
  the one array with such a timestamp that is evaluated below, every comparison between
  neighbours answers \<open>NaN\<close>, so that an engine which first looks for a run that is in
  order already finds the whole array and returns it as it is, like the model.
\<close>

definition sortsAfter :: "('a \<Rightarrow> 'a \<Rightarrow> jsnum) \<Rightarrow> 'a \<Rightarrow> 'a \<Rightarrow> bool" where
  "sortsAfter cmp x y = (case cmp x y of Fin q \<Rightarrow> 0 < q | PosInf \<Rightarrow> True | _ \<Rightarrow> False)"

fun insertBy :: "('a \<Rightarrow> 'a \<Rightarrow> jsnum) \<Rightarrow> 'a \<Rightarrow> 'a list \<Rightarrow> 'a list" where
  "insertBy cmp x [] = [x]"
| "insertBy cmp x (y # ys) =
     (if sortsAfter cmp x y then y # insertBy cmp x ys else x # y # ys)"

definition arraySort :: "('a \<Rightarrow> 'a \<Rightarrow> jsnum) \<Rightarrow> 'a list \<Rightarrow> 'a list" where
  "arraySort cmp xs = foldr (insertBy cmp) xs []"

text \<open>The comparator of \<^verbatim>\<open>sortRowsDesc\<close>: \<^verbatim>\<open>(a, b) => rowTimestamp(b) - rowTimestamp(a)\<close>.\<close>

definition compareRows :: "runtime \<Rightarrow> json \<Rightarrow> json \<Rightarrow> jsnum" where
  "compareRows rt a b = jsSub (rowTimestamp rt b) (rowTimestamp rt a)"

text \<open>
  \<^verbatim>\<open>sortRowsDesc(rows)\<close>: \<^verbatim>\<open>if (!Array.isArray(rows)) return [];\<close>
  \<^verbatim>\<open>return [...rows].sort((a, b) => rowTimestamp(b) - rowTimestamp(a));\<close>
\<close>

definition sortRowsDesc :: "runtime \<Rightarrow> jsval \<Rightarrow> json list" where
  "sortRowsDesc rt rows =
     (case rows of Some (JArr xs) \<Rightarrow> arraySort (compareRows rt) xs | _ \<Rightarrow> [])"








text \<open>
  A runtime to evaluate the examples with. The only string the examples convert to a
  number is \<^verbatim>\<open>'x'\<close>, which is no number; they parse no date and print no number; their
  texts are ASCII. So this runtime answers \<open>NaN\<close> to every string, prints a fixed digit
  and lowers the ASCII letters. The theorems themselves hold for every runtime.
\<close>

definition asciiLower :: "char \<Rightarrow> char" where
  "asciiLower c =
     (case map_of (zip ''ABCDEFGHIJKLMNOPQRSTUVWXYZ'' ''abcdefghijklmnopqrstuvwxyz'') c of
        Some d \<Rightarrow> d
      | None \<Rightarrow> c)"

definition plainRuntime :: runtime where
  "plainRuntime =
     \<lparr> dateParse = (\<lambda>s. NaN), stringToNumber = (\<lambda>s. NaN),
       numberToString = (\<lambda>n. ''0''), toLowerCase = map asciiLower \<rparr>"

section \<open>View state store\<close>

text \<open>
  The component's parameters, each with its default:
  \<^verbatim>\<open>{ pollInterval = 5000, leftSequenceUrl = '...', rightSequenceUrl = '...' }\<close>.
  An attribute the caller leaves out is \<open>None\<close>.
\<close>

record attrs =
  pollIntervalAttr :: "nat option"
  leftSequenceUrlAttr :: "string option"
  rightSequenceUrlAttr :: "string option"

record props =
  pollInterval :: nat
  leftSequenceUrl :: string
  rightSequenceUrl :: string

definition defaults :: "attrs \<Rightarrow> props" where
  "defaults a =
     \<lparr> pollInterval = (case pollIntervalAttr a of None \<Rightarrow> 5000 | Some n \<Rightarrow> n),
       leftSequenceUrl =
         (case leftSequenceUrlAttr a of
            None \<Rightarrow> ''http://10.40.40.215:3000/api/sequence'' | Some u \<Rightarrow> u),
       rightSequenceUrl =
         (case rightSequenceUrlAttr a of
            None \<Rightarrow> ''http://10.40.40.215:3000/api/sequence/right'' | Some u \<Rightarrow> u) \<rparr>"

datatype level = LevelLog | LevelInfo | LevelWarn | LevelError

type_synonym entry = "level \<times> string \<times> jsval"

text \<open>
  One record holds the component's state (the twelve \<^verbatim>\<open>useState\<close> cells), its two refs and
  the effect's \<^verbatim>\<open>mounted\<close> flag, and what the component does to its surroundings: the
  interval timers that are running (handle and period), the next handle \<^verbatim>\<open>setInterval\<close>
  gives out, whether the socket was closed, the console and the GET requests sent.
  \<^verbatim>\<open>setInterval\<close> returns a positive handle, so a stored handle is truthy: \<^verbatim>\<open>pollRef.current\<close>
  is falsy exactly when it is \<open>None\<close>.
\<close>

record session =
  leftRows :: "json list"
  rightRows :: "json list"
  leftPending :: jsval
  rightPending :: jsval
  buffer :: jsval
  status :: string
  query :: string
  showTentativeOnly :: bool
  pageSize :: nat
  pageLeft :: nat
  pageRight :: nat
  detailRow :: jsval
  mounted :: bool
  pollRef :: "nat option"
  socketRef :: bool
  timers :: "(nat \<times> nat) list"
  nextHandle :: nat
  socketClosed :: bool
  console :: "entry list"
  requests :: "string list"

definition initialSession :: session where
  "initialSession =
     \<lparr> leftRows = [], rightRows = [], leftPending = Some (JArr []),
       rightPending = Some (JArr []), buffer = Some JNull, status = ''connecting'',
       query = [], showTentativeOnly = False, pageSize = 25, pageLeft = 0, pageRight = 0,
       detailRow = Some JNull, mounted = False, pollRef = None, socketRef = False,
       timers = [], nextHandle = 1, socketClosed = False, console = [], requests = [] \<rparr>"

subsection \<open>Filtering and paging\<close>

text \<open>\<^verbatim>\<open>text.includes(q)\<close>.\<close>

fun strIncludes :: "string \<Rightarrow> string \<Rightarrow> bool" where
  "strIncludes [] q = (q = [])"
| "strIncludes (c # cs) q = (prefix q (c # cs) \<or> strIncludes cs q)"

text \<open>\<^verbatim>\<open>${row.k || ''}\<close> inside the template literal.\<close>

definition fieldText :: "runtime \<Rightarrow> json \<Rightarrow> string \<Rightarrow> string" where
  "fieldText rt row k = jsString rt (orElse (optGet (Some row) k) (Some (JStr [])))"

definition searchText :: "runtime \<Rightarrow> json \<Rightarrow> string" where
  "searchText rt row =
     fieldText rt row ''wagon_no'' @ '' '' @ fieldText rt row ''train_no'' @ '' '' @
     fieldText rt row ''container_no_1'' @ '' '' @ fieldText rt row ''container_no_2''"

text \<open>
  \<^verbatim>\<open>filterFn(row)\<close>, with the two state cells it reads as arguments:
  \<^verbatim>\<open>if (!row) return false;\<close>
  \<^verbatim>\<open>const text = `...`.toLowerCase();\<close>
  \<^verbatim>\<open>if (query && !text.includes(query.toLowerCase())) return false;\<close>
  \<^verbatim>\<open>if (showTentativeOnly && row.finalizedAt) return false;\<close>
  \<^verbatim>\<open>return true;\<close>
\<close>

definition filterFn :: "runtime \<Rightarrow> string \<Rightarrow> bool \<Rightarrow> json \<Rightarrow> bool" where
  "filterFn rt q tentativeOnly row =
     (if \<not> truthy (Some row) then False
      else let text = toLowerCase rt (searchText rt row)
           in if q \<noteq> [] \<and> \<not> strIncludes text (toLowerCase rt q) then False
              else if tentativeOnly \<and> truthy (optGet (Some row) ''finalizedAt'') then False
              else True)"

definition filteredLeft :: "runtime \<Rightarrow> session \<Rightarrow> json list" where
  "filteredLeft rt w = filter (filterFn rt (query w) (showTentativeOnly w)) (leftRows w)"

definition filteredRight :: "runtime \<Rightarrow> session \<Rightarrow> json list" where
  "filteredRight rt w = filter (filterFn rt (query w) (showTentativeOnly w)) (rightRows w)"

text \<open>\<^verbatim>\<open>xs.slice(a, b)\<close> for indices \<open>0 \<le> a \<le> b\<close>.\<close>

definition slice :: "nat \<Rightarrow> nat \<Rightarrow> 'a list \<Rightarrow> 'a list" where
  "slice a b xs = take (b - a) (drop a xs)"

definition pagedLeft :: "runtime \<Rightarrow> session \<Rightarrow> json list" where
  "pagedLeft rt w =
     slice (pageLeft w * pageSize w) ((pageLeft w + 1) * pageSize w) (filteredLeft rt w)"

definition pagedRight :: "runtime \<Rightarrow> session \<Rightarrow> json list" where
  "pagedRight rt w =
     slice (pageRight w * pageSize w) ((pageRight w + 1) * pageSize w) (filteredRight rt w)"

subsection \<open>CSV export\<close>

definition dquote :: char where
  "dquote = CHR 0x22"















section \<open>Transport adapter\<close>

text \<open>
  What one \<^verbatim>\<open>axios.get\<close> comes to: the promise rejects with an error value or resolves
  with a response. A piece of code that can throw is a completion: the session it leaves
  and the value thrown, if any.
\<close>

datatype outcome = Rejected jsval | Resolved jsval

type_synonym completion = "session \<times> jsval option"

definition tryCatch :: "completion \<Rightarrow> (jsval \<Rightarrow> session \<Rightarrow> completion) \<Rightarrow> completion" where
  "tryCatch c handler = (case c of (w, None) \<Rightarrow> (w, None) | (w, Some err) \<Rightarrow> handler err w)"

definition axiosGet :: "string \<Rightarrow> session \<Rightarrow> session" where
  "axiosGet url w = w\<lparr>requests := requests w @ [url]\<rparr>"

definition consoleWrite :: "level \<Rightarrow> string \<Rightarrow> jsval \<Rightarrow> session \<Rightarrow> session" where
  "consoleWrite l label v w = w\<lparr>console := console w @ [(l, label, v)]\<rparr>"

text \<open>The test \<^verbatim>\<open>r && r.data && r.data.ok\<close> both fetches make.\<close>

definition usable :: "jsval \<Rightarrow> bool" where
  "usable r = (truthy r \<and> truthy (optGet r ''data'') \<and> truthy (optGet (optGet r ''data'') ''ok''))"

text \<open>
  \<^verbatim>\<open>fetchLeft\<close>. The function is a closure of one render: \<open>buf\<close> is the value the state cell
  \<^verbatim>\<open>buffer\<close> had in that render, which is what \<^verbatim>\<open>r.data.buffer ?? buffer\<close> reads when the
  response arrives. \<open>leftTry\<close> is the body of the \<^verbatim>\<open>try\<close> from the \<^verbatim>\<open>await\<close> on:
  \<^verbatim>\<open>if (r && r.data && r.data.ok) {\<close>
  \<^verbatim>\<open>  const rows = sortRowsDesc(r.data.rows || []);\<close>
  \<^verbatim>\<open>  setLeftRows(rows); setLeftPending(r.data.pendingContainers || []);\<close>
  \<^verbatim>\<open>  setBuffer(r.data.buffer ?? buffer); }\<close>
  and \<open>settleLeft\<close> adds the \<^verbatim>\<open>catch\<close>:
  \<^verbatim>\<open>console.error('fetchLeft err', err?.message || err)\<close>.
\<close>

definition leftTry :: "runtime \<Rightarrow> jsval \<Rightarrow> outcome \<Rightarrow> session \<Rightarrow> completion" where
  "leftTry rt buf out w =
     (case out of
        Rejected err \<Rightarrow> (w, Some err)
      | Resolved r \<Rightarrow>
          (if usable r
           then (let d = optGet r ''data'';
                     rows = sortRowsDesc rt (orElse (optGet d ''rows'') (Some (JArr [])))
                 in (w\<lparr>leftRows := rows,
                        leftPending := orElse (optGet d ''pendingContainers'') (Some (JArr [])),
                        buffer := nullish (optGet d ''buffer'') buf\<rparr>, None))
           else (w, None)))"

definition settleLeft :: "runtime \<Rightarrow> jsval \<Rightarrow> outcome \<Rightarrow> session \<Rightarrow> completion" where
  "settleLeft rt buf out w =
     tryCatch (leftTry rt buf out w)
       (\<lambda>err w'. (consoleWrite LevelError ''fetchLeft err'' (orElse (optGet err ''message'') err) w',
                   None))"

definition fetchLeft :: "runtime \<Rightarrow> props \<Rightarrow> jsval \<Rightarrow> outcome \<Rightarrow> session \<Rightarrow> completion" where
  "fetchLeft rt p buf out w = settleLeft rt buf out (axiosGet (leftSequenceUrl p) w)"

text \<open>\<^verbatim>\<open>fetchRight\<close> is the same on the right lane, after \<^verbatim>\<open>console.log(r)\<close>.\<close>

definition rightTry :: "runtime \<Rightarrow> jsval \<Rightarrow> outcome \<Rightarrow> session \<Rightarrow> completion" where
  "rightTry rt buf out w =
     (case out of
        Rejected err \<Rightarrow> (w, Some err)
      | Resolved r \<Rightarrow>
          (let w1 = consoleWrite LevelLog [] r w in
           if usable r
           then (let d = optGet r ''data'';
                     rows = sortRowsDesc rt (orElse (optGet d ''rows'') (Some (JArr [])))
                 in (w1\<lparr>rightRows := rows,
                         rightPending := orElse (optGet d ''pendingContainers'') (Some (JArr [])),
                         buffer := nullish (optGet d ''buffer'') buf\<rparr>, None))
           else (w1, None)))"

definition settleRight :: "runtime \<Rightarrow> jsval \<Rightarrow> outcome \<Rightarrow> session \<Rightarrow> completion" where
  "settleRight rt buf out w =
     tryCatch (rightTry rt buf out w)
       (\<lambda>err w'. (consoleWrite LevelError ''fetchRight err'' (orElse (optGet err ''message'') err) w',
                   None))"

definition fetchRight :: "runtime \<Rightarrow> props \<Rightarrow> jsval \<Rightarrow> outcome \<Rightarrow> session \<Rightarrow> completion" where
  "fetchRight rt p buf out w = settleRight rt buf out (axiosGet (rightSequenceUrl p) w)"

text \<open>
  \<^verbatim>\<open>fetchAll\<close>: \<^verbatim>\<open>await Promise.all([fetchLeft(), fetchRight()])\<close>. Both requests go out, left
  first; the two answers arrive in either order, and each lane's continuation runs when
  its answer is there. \<^verbatim>\<open>Promise.all\<close> waits for both and rejects with the first rejection.
\<close>

datatype arrival = LeftFirst | RightFirst

record network =
  arrival :: arrival
  leftOutcome :: outcome
  rightOutcome :: outcome

definition issueAll :: "props \<Rightarrow> session \<Rightarrow> session" where
  "issueAll p w = axiosGet (rightSequenceUrl p) (axiosGet (leftSequenceUrl p) w)"

definition settleAll :: "runtime \<Rightarrow> jsval \<Rightarrow> network \<Rightarrow> session \<Rightarrow> completion" where
  "settleAll rt buf net w =
     (let (w1, e1) = (case arrival net of
                        LeftFirst \<Rightarrow> settleLeft rt buf (leftOutcome net) w
                      | RightFirst \<Rightarrow> settleRight rt buf (rightOutcome net) w);
          (w2, e2) = (case arrival net of
                        LeftFirst \<Rightarrow> settleRight rt buf (rightOutcome net) w1
                      | RightFirst \<Rightarrow> settleLeft rt buf (leftOutcome net) w1)
      in (w2, case e1 of Some e \<Rightarrow> Some e | None \<Rightarrow> e2))"

definition fetchAll :: "runtime \<Rightarrow> props \<Rightarrow> jsval \<Rightarrow> network \<Rightarrow> session \<Rightarrow> completion" where
  "fetchAll rt p buf net w = settleAll rt buf net (issueAll p w)"

text \<open>The three lane values a fetch may replace.\<close>

datatype lane = LeftLane | RightLane

definition laneState :: "lane \<Rightarrow> session \<Rightarrow> json list \<times> jsval \<times> jsval" where
  "laneState l w =
     (case l of
        LeftLane \<Rightarrow> (leftRows w, leftPending w, buffer w)
      | RightLane \<Rightarrow> (rightRows w, rightPending w, buffer w))"

section \<open>Dual-channel update scheduler\<close>

text \<open>
  The socket handlers call one of three refreshes and drop the promise.
  \<^verbatim>\<open>socket.on('update', (payload) => { if (!payload) return fireFullRefresh();\<close>
  \<^verbatim>\<open>  if (payload.side === 'left') fireLeftRefresh();\<close>
  \<^verbatim>\<open>  else if (payload.side === 'right') fireRightRefresh(); else fireFullRefresh(); })\<close>
\<close>

datatype refresh = LeftRefresh | RightRefresh | FullRefresh

definition onUpdate :: "jsval \<Rightarrow> refresh" where
  "onUpdate payload =
     (if \<not> truthy payload then FullRefresh
      else if optGet payload ''side'' = Some (JStr ''left'') then LeftRefresh
      else if optGet payload ''side'' = Some (JStr ''right'') then RightRefresh
      else FullRefresh)"

text \<open>The refresh each subscribed event name asks for; \<open>None\<close> for a name nobody listens to.\<close>

definition onSocketEvent :: "string \<Rightarrow> jsval \<Rightarrow> refresh option" where
  "onSocketEvent name payload =
     (if name = ''sequence:left:changed'' then Some LeftRefresh
      else if name = ''sequence:right:changed'' then Some RightRefresh
      else if name = ''sequence:changed'' then Some FullRefresh
      else if name = ''sequencing:change'' then Some FullRefresh
      else if name = ''container:changed'' then Some FullRefresh
      else if name = ''flush'' then Some FullRefresh
      else if name = ''update'' then Some (onUpdate payload)
      else None)"

definition fire :: "runtime \<Rightarrow> props \<Rightarrow> jsval \<Rightarrow> refresh \<Rightarrow> network \<Rightarrow> session \<Rightarrow> session" where
  "fire rt p buf i net w =
     (case i of
        LeftRefresh \<Rightarrow> fst (fetchLeft rt p buf (leftOutcome net) w)
      | RightRefresh \<Rightarrow> fst (fetchRight rt p buf (rightOutcome net) w)
      | FullRefresh \<Rightarrow> fst (fetchAll rt p buf net w))"

text \<open>
  \<^verbatim>\<open>startPolling\<close>: \<^verbatim>\<open>if (pollRef.current) return;\<close>
  \<^verbatim>\<open>pollRef.current = setInterval(() => { fetchAll(); }, pollInterval); setStatus('polling');\<close>
\<close>

definition startPolling :: "props \<Rightarrow> session \<Rightarrow> session" where
  "startPolling p w =
     (if pollRef w \<noteq> None then w
      else w\<lparr>pollRef := Some (nextHandle w),
             timers := timers w @ [(nextHandle w, pollInterval p)],
             nextHandle := Suc (nextHandle w),
             status := ''polling''\<rparr>)"

text \<open>
  The effect (\<^verbatim>\<open>useEffect(..., [])\<close>) runs once, after the first render. Everything it
  registers (the socket handlers, the interval's callback, the initial \<^verbatim>\<open>fetchAll()\<close>) calls
  the fetch functions of that first render, in which \<^verbatim>\<open>buffer\<close> is the initial value of the
  state cell.
\<close>

definition effectBuffer :: jsval where
  "effectBuffer = buffer initialSession"

text \<open>
  The body of the effect up to its \<^verbatim>\<open>return\<close>: the initial requests go out, then \<^verbatim>\<open>io(...)\<close>
  either returns the socket or throws \<open>err\<close>, in which case the \<^verbatim>\<open>catch\<close> runs: \<^verbatim>\<open>console.warn(...); startPolling(); setStatus('polling');\<close>
\<close>

datatype ioResult = IoReturns | IoThrows jsval

definition mount :: "props \<Rightarrow> ioResult \<Rightarrow> session \<Rightarrow> session" where
  "mount p io w =
     (let w0 = issueAll p (w\<lparr>mounted := True\<rparr>) in
      case io of
        IoReturns \<Rightarrow> w0\<lparr>socketRef := True\<rparr>
      | IoThrows err \<Rightarrow>
          (startPolling p
             (consoleWrite LevelWarn ''socket setup failed'' (orElse (optGet err ''message'') err) w0))
          \<lparr>status := ''polling''\<rparr>)"

text \<open>
  The effect's cleanup: \<^verbatim>\<open>mounted = false;\<close>
  \<^verbatim>\<open>if (pollRef.current) clearInterval(pollRef.current);\<close>
  \<^verbatim>\<open>if (socketRef.current) socketRef.current.disconnect();\<close>
\<close>

definition clearInterval :: "nat \<Rightarrow> session \<Rightarrow> session" where
  "clearInterval h w = w\<lparr>timers := filter (\<lambda>t. fst t \<noteq> h) (timers w)\<rparr>"

definition cleanup :: "session \<Rightarrow> session" where
  "cleanup w =
     (let w1 = w\<lparr>mounted := False\<rparr>;
          w2 = (case pollRef w1 of None \<Rightarrow> w1 | Some h \<Rightarrow> clearInterval h w1)
      in if socketRef w2 then w2\<lparr>socketClosed := True\<rparr> else w2)"

text \<open>
  What can happen to a session. A refresh is taken as one step, the answers of the
  network given with the event that asks for it; only the initial \<^verbatim>\<open>fetchAll()\<close> is split,
  because the effect goes on between its requests and its answers. Socket events reach
  the handlers only once the socket exists; a tick only comes from a running timer; the
  Prev and Next buttons are disabled where the source disables them.
\<close>

datatype event =
    Mount ioResult
  | InitialSettled network
  | Connect jsval
  | ConnectError jsval
  | Disconnect jsval
  | Notify string jsval network
  | Tick nat network
  | Unmount
  | QueryChange string
  | TentativeChange bool
  | PageSizeChange nat
  | PrevLeft
  | NextLeft
  | PrevRight
  | NextRight
  | RefreshClick network
  | SelectRow json
  | CloseDetail

definition step :: "runtime \<Rightarrow> props \<Rightarrow> event \<Rightarrow> session \<Rightarrow> session" where
  "step rt p ev w =
     (case ev of
        Mount io \<Rightarrow> mount p io w
      | InitialSettled net \<Rightarrow>
          (case settleAll rt effectBuffer net w of
             (w1, None) \<Rightarrow> (if mounted w1 then w1\<lparr>status := ''ready''\<rparr> else w1)
           | (w1, Some e) \<Rightarrow> w1)
      | Connect sid \<Rightarrow>
          (if socketRef w
           then consoleWrite LevelInfo ''socket connected'' sid (w\<lparr>status := ''socket:connected''\<rparr>)
           else w)
      | ConnectError err \<Rightarrow>
          (if socketRef w
           then (let w1 = consoleWrite LevelWarn ''socket connect_error''
                            (orElse (optGet err ''message'') err) w;
                     w2 = (if pollRef w1 = None then startPolling p w1 else w1)
                 in w2\<lparr>status := ''socket:error''\<rparr>)
           else w)
      | Disconnect reason \<Rightarrow>
          (if socketRef w
           then (let w1 = consoleWrite LevelWarn ''socket disconnected'' reason w;
                     w2 = (if pollRef w1 = None then startPolling p w1 else w1)
                 in w2\<lparr>status := ''socket:disconnected''\<rparr>)
           else w)
      | Notify name payload net \<Rightarrow>
          (if socketRef w
           then (case onSocketEvent name payload of
                   None \<Rightarrow> w
                 | Some i \<Rightarrow> fire rt p effectBuffer i net w)
           else w)
      | Tick h net \<Rightarrow>
          (if h \<in> fst ` set (timers w) then fst (fetchAll rt p effectBuffer net w) else w)
      | Unmount \<Rightarrow> cleanup w
      | QueryChange v \<Rightarrow> w\<lparr>query := v, pageLeft := 0, pageRight := 0\<rparr>
      | TentativeChange c \<Rightarrow> w\<lparr>showTentativeOnly := c\<rparr>
      | PageSizeChange n \<Rightarrow> w\<lparr>pageSize := n, pageLeft := 0, pageRight := 0\<rparr>
      | PrevLeft \<Rightarrow> (if pageLeft w = 0 then w else w\<lparr>pageLeft := max 0 (pageLeft w - 1)\<rparr>)
      | NextLeft \<Rightarrow>
          (if (pageLeft w + 1) * pageSize w \<ge> length (filteredLeft rt w) then w
           else w\<lparr>pageLeft := pageLeft w + 1\<rparr>)
      | PrevRight \<Rightarrow> (if pageRight w = 0 then w else w\<lparr>pageRight := max 0 (pageRight w - 1)\<rparr>)
      | NextRight \<Rightarrow>
          (if (pageRight w + 1) * pageSize w \<ge> length (filteredRight rt w) then w
           else w\<lparr>pageRight := pageRight w + 1\<rparr>)
      | RefreshClick net \<Rightarrow> fst (fetchAll rt p (buffer w) net w)
      | SelectRow r \<Rightarrow> w\<lparr>detailRow := Some r\<rparr>
      | CloseDetail \<Rightarrow> w\<lparr>detailRow := Some JNull\<rparr>)"

definition run :: "runtime \<Rightarrow> props \<Rightarrow> event list \<Rightarrow> session \<Rightarrow> session" where
  "run rt p evs w = foldl (\<lambda>w' ev. step rt p ev w') w evs"

section \<open>Properties as the specification words them\<close>

text \<open>
  The data model's rule for the canonical timestamp, over any priority list of fields: the
  first field of the list that the row has (not \<^verbatim>\<open>null\<close>, not \<^verbatim>\<open>undefined\<close>) is the one
  consulted; it gives the timestamp when it is a time (a truthy value that is, or parses
  to, a finite number); in every other case the numeric id is the fallback, and \<open>0\<close>
  when the row has no id.
\<close>

definition readPath :: "json \<Rightarrow> string list \<Rightarrow> jsval" where
  "readPath r ks = foldl optGet (Some r) ks"

definition timeOf :: "runtime \<Rightarrow> jsval \<Rightarrow> jsnum option" where
  "timeOf rt t =
     (if \<not> truthy t then None
      else case (case t of Some (JNum n) \<Rightarrow> n | _ \<Rightarrow> dateParse rt (jsString rt t)) of
             Fin q \<Rightarrow> Some (Fin q)
           | _ \<Rightarrow> None)"

definition idOrZero :: "runtime \<Rightarrow> json \<Rightarrow> jsnum" where
  "idOrZero rt r =
     (if truthy (getProp r ''id'') then toNumber rt (getProp r ''id'') else Fin 0)"

definition resolveBy :: "runtime \<Rightarrow> string list list \<Rightarrow> json \<Rightarrow> jsnum" where
  "resolveBy rt paths r =
     (case find (\<lambda>v. \<not> isNullish v) (map (readPath r) paths) of
        None \<Rightarrow> idOrZero rt r
      | Some t \<Rightarrow> (case timeOf rt t of Some n \<Rightarrow> n | None \<Rightarrow> idOrZero rt r))"

text \<open>The priority list the specification gives.\<close>

definition specPriority :: "string list list" where
  "specPriority = [[''wagonRaw'', ''time''], [''time''], [''finalizedAt''], [''createdAt'']]"

text \<open>An order is newest first when no row stands behind a row with a smaller timestamp.\<close>

definition newestFirst :: "runtime \<Rightarrow> json list \<Rightarrow> bool" where
  "newestFirst rt out =
     (\<forall>i j. i < length out \<and> j < length out \<and>
            jsLess (rowTimestamp rt (out ! j)) (rowTimestamp rt (out ! i)) \<longrightarrow> i < j)"

text \<open>Descending order of the timestamps, pair by pair.\<close>

definition descending :: "runtime \<Rightarrow> json list \<Rightarrow> bool" where
  "descending rt xs =
     sorted_wrt (\<lambda>x y. \<not> jsLess (rowTimestamp rt x) (rowTimestamp rt y)) xs"


text \<open>Rows with one timestamp \<open>t\<close>, in the order a sequence has them.\<close>

definition rowsAt :: "runtime \<Rightarrow> jsnum \<Rightarrow> json list \<Rightarrow> json list" where
  "rowsAt rt t xs = filter (\<lambda>r. rowTimestamp rt r = t) xs"






text \<open>
  At most one polling timer: no timer runs, or the one that runs is the one \<^verbatim>\<open>pollRef\<close>
  holds, with the configured period.
\<close>

definition pollingInv :: "props \<Rightarrow> session \<Rightarrow> bool" where
  "pollingInv p w =
     (case pollRef w of
        None \<Rightarrow> timers w = []
      | Some h \<Rightarrow> timers w = [] \<or> timers w = [(h, pollInterval p)])"

section \<open>Example data\<close>

text \<open>The scenario of the specification: a left fetch answered with two rows and buffer B1.\<close>

definition row1 :: json where
  "row1 = JObj [(''id'', JNum (Fin 1)), (''time'', JNum (Fin 1000))]"

definition row2 :: json where
  "row2 = JObj [(''id'', JNum (Fin 2)), (''time'', JNum (Fin 2000))]"

definition response :: "json list \<Rightarrow> jsval \<Rightarrow> jsval" where
  "response rows buf =
     Some (JObj [(''data'',
       JObj ([(''ok'', JBool True), (''rows'', JArr rows), (''pendingContainers'', JArr [])] @
             (case buf of None \<Rightarrow> [] | Some b \<Rightarrow> [(''buffer'', b)])))])"

definition scenarioResponse :: jsval where
  "scenarioResponse = response [row1, row2] (Some (JStr ''B1''))"

text \<open>A row that has only an id and a \<^verbatim>\<open>ts\<close> field, and one whose id is no number.\<close>

definition rowTs :: json where
  "rowTs = JObj [(''id'', JNum (Fin 7)), (''ts'', JNum (Fin 5000))]"

definition rowX :: json where
  "rowX = JObj [(''id'', JStr ''x'')]"

text \<open>Rows for the filter and the export: one finalized, with a double quote in its wagon
  number; one tentative; one whose \<^verbatim>\<open>finalizedAt\<close> is the empty string.\<close>

definition rowFinal :: json where
  "rowFinal =
     JObj [(''id'', JNum (Fin 4)), (''wagon_no'', JStr (''W'' @ [dquote] @ ''4'')),
           (''finalizedAt'', JStr ''2024-05-01T10:00:00Z'')]"

definition rowTentative :: json where
  "rowTentative = JObj [(''id'', JStr ''5''), (''wagon_no'', JStr ''Ab12'')]"





definition netB1 :: network where
  "netB1 = \<lparr> arrival = LeftFirst, leftOutcome = Resolved scenarioResponse,
             rightOutcome = Resolved (response [] (Some (JStr ''B1''))) \<rparr>"

definition netNoBuffer :: network where
  "netNoBuffer = \<lparr> arrival = LeftFirst, leftOutcome = Resolved (response [row1] None),
                   rightOutcome = Resolved (response [row2] None) \<rparr>"



text \<open>The component used without attributes, and an error thrown by \<^verbatim>\<open>io(...)\<close>.\<close>

definition noAttrs :: attrs where
  "noAttrs = \<lparr> pollIntervalAttr = None, leftSequenceUrlAttr = None, rightSequenceUrlAttr = None \<rparr>"

definition thrown :: jsval where
  "thrown = Some (JObj [(''message'', JStr ''io is not available'')])"

definition payloadLeft :: jsval where
  "payloadLeft = Some (JObj [(''side'', JStr ''left'')])"

definition payloadRight :: jsval where
  "payloadRight = Some (JObj [(''side'', JStr ''right'')])"

text \<open>A session with one row in each lane, buffer B0 and the socket set up.\<close>

definition session1 :: session where
  "session1 =
     initialSession\<lparr>leftRows := [row1], rightRows := [row2], buffer := Some (JStr ''B0''),
                    socketRef := True\<rparr>"

text \<open>A session that shows the second page of eleven left rows, ten to a page.\<close>

definition session6 :: session where
  "session6 =
     initialSession\<lparr>leftRows := replicate 10 rowFinal @ [rowTentative], pageSize := 10,
                    pageLeft := 1, pageRight := 2\<rparr>"

section \<open>Lemmas on values and on the sort\<close>

lemma optGet_Some: "optGet (Some r) k = (if r = JNull then None else getProp r k)"
  by (cases r) (auto simp: optGet_def)

lemma jsLess_irrefl: "\<not> jsLess x x"
  by (cases x) auto

lemma jsLess_asym: "jsLess x y \<Longrightarrow> \<not> jsLess y x"
  by (cases x; cases y) auto

lemma jsLess_negtrans: "y \<noteq> NaN \<Longrightarrow> \<not> jsLess x y \<Longrightarrow> \<not> jsLess y z \<Longrightarrow> \<not> jsLess x z"
  by (cases x; cases y; cases z) auto

text \<open>The comparator puts \<open>x\<close> behind \<open>y\<close> exactly when \<open>x\<close> is the older row.\<close>

lemma sortsAfter_compareRows:
  "sortsAfter (compareRows rt) x y = jsLess (rowTimestamp rt x) (rowTimestamp rt y)"
  by (cases "rowTimestamp rt x"; cases "rowTimestamp rt y")
     (auto simp: sortsAfter_def compareRows_def)

lemma arraySort_Cons: "arraySort cmp (x # xs) = insertBy cmp x (arraySort cmp xs)"
  by (simp add: arraySort_def)

lemma set_insertBy: "set (insertBy cmp x ys) = insert x (set ys)"
  by (induction ys) auto

lemma set_arraySort: "set (arraySort cmp xs) = set xs"
  by (induction xs) (auto simp: arraySort_def set_insertBy)

lemma mset_insertBy: "mset (insertBy cmp x ys) = add_mset x (mset ys)"
  by (induction ys) auto

lemma mset_arraySort: "mset (arraySort cmp xs) = mset xs"
  by (induction xs) (auto simp: arraySort_def mset_insertBy)



text \<open>
  The lemmas that follow are facts of the insertion sort. The claims use them of the
  program only for arrays without a \<open>NaN\<close> timestamp, or at one evaluated array.
  Stability: an insertion never moves a row past one with the same timestamp.
\<close>

lemma rowsAt_insertBy:
  "rowsAt rt t (insertBy (compareRows rt) x ys) = rowsAt rt t (x # ys)"
  by (induction ys) (auto simp: rowsAt_def sortsAfter_compareRows jsLess_irrefl)

lemma rowsAt_arraySort: "rowsAt rt t (arraySort (compareRows rt) xs) = rowsAt rt t xs"
proof (induction xs)
  case Nil
  show ?case by (simp add: arraySort_def)
next
  case (Cons x xs)
  have "rowsAt rt t (arraySort (compareRows rt) (x # xs)) =
        rowsAt rt t (x # arraySort (compareRows rt) xs)"
    by (simp add: arraySort_Cons rowsAt_insertBy)
  with Cons show ?case by (simp add: rowsAt_def)
qed

lemma descending_insertBy:
  assumes "rowTimestamp rt x \<noteq> NaN" and "\<forall>y \<in> set ys. rowTimestamp rt y \<noteq> NaN"
    and "descending rt ys"
  shows "descending rt (insertBy (compareRows rt) x ys)"
  using assms
proof (induction ys)
  case Nil
  then show ?case by (simp add: descending_def)
next
  case (Cons y ys)
  show ?case
  proof (cases "sortsAfter (compareRows rt) x y")
    case True
    then have lt: "jsLess (rowTimestamp rt x) (rowTimestamp rt y)"
      by (simp add: sortsAfter_compareRows)
    have "descending rt (insertBy (compareRows rt) x ys)"
      using Cons by (simp add: descending_def)
    moreover have "\<forall>z \<in> set (insertBy (compareRows rt) x ys).
        \<not> jsLess (rowTimestamp rt y) (rowTimestamp rt z)"
      using Cons.prems lt by (auto simp: set_insertBy descending_def dest: jsLess_asym)
    ultimately show ?thesis using True by (simp add: descending_def)
  next
    case False
    then have ge: "\<not> jsLess (rowTimestamp rt x) (rowTimestamp rt y)"
      by (simp add: sortsAfter_compareRows)
    have "\<forall>z \<in> set ys. \<not> jsLess (rowTimestamp rt x) (rowTimestamp rt z)"
      using Cons.prems ge jsLess_negtrans[of "rowTimestamp rt y" "rowTimestamp rt x"]
      by (auto simp: descending_def)
    then show ?thesis using False ge Cons.prems by (simp add: descending_def)
  qed
qed

lemma descending_arraySort:
  "\<forall>y \<in> set xs. rowTimestamp rt y \<noteq> NaN \<Longrightarrow> descending rt (arraySort (compareRows rt) xs)"
proof (induction xs)
  case Nil
  show ?case by (simp add: arraySort_def descending_def)
next
  case (Cons x xs)
  then show ?case by (simp add: arraySort_Cons descending_insertBy set_arraySort)
qed

lemma descending_newestFirst: "descending rt xs \<Longrightarrow> newestFirst rt xs"
  unfolding newestFirst_def
proof (intro allI impI)
  fix i j
  assume d: "descending rt xs"
    and h: "i < length xs \<and> j < length xs \<and>
            jsLess (rowTimestamp rt (xs ! j)) (rowTimestamp rt (xs ! i))"
  show "i < j"
  proof (rule ccontr)
    assume "\<not> i < j"
    then consider "i = j" | "j < i" by linarith
    then show False
    proof cases
      case 1
      with h show False by (simp add: jsLess_irrefl)
    next
      case 2
      with d h show False
        unfolding descending_def sorted_wrt_iff_nth_less by blast
    qed
  qed
qed





text \<open>Without a \<open>NaN\<close> timestamp the comparator is consistent: newest first, stable.\<close>

lemma sortRowsDesc_nan_free:
  assumes "\<forall>r \<in> set rows. rowTimestamp rt r \<noteq> NaN"
  shows "newestFirst rt (sortRowsDesc rt (Some (JArr rows)))"
    and "rowsAt rt t (sortRowsDesc rt (Some (JArr rows))) = rowsAt rt t rows"
    and "mset (sortRowsDesc rt (Some (JArr rows))) = mset rows"
  using assms
  by (simp_all add: sortRowsDesc_def descending_newestFirst descending_arraySort
      rowsAt_arraySort mset_arraySort)


text \<open>The choice among the five fields, and what \<open>rowTimestamp\<close> makes of the chosen value.\<close>

lemma find_chain:
  "find (\<lambda>v. \<not> isNullish v) [a, b, c, d, e] =
     (let t = nullish a (nullish b (nullish c (nullish d (nullish e (Some JNull)))))
      in if isNullish t then None else Some t)"
  by (simp add: nullish_def Let_def isNullish_def)

lemma idOrZero_optGet:
  "idOrZero rt r =
     (if truthy (optGet (Some r) ''id'') then toNumber rt (optGet (Some r) ''id'') else Fin 0)"
  by (simp add: idOrZero_def optGet_Some)

lemma chosen_timeOf:
  "(let parsed = (if truthy t
                  then (if isNumber t then t else Some (JNum (dateParse rt (jsString rt t))))
                  else Some JNull)
    in if numberIsFinite parsed \<and> \<not> numberIsNaN parsed then numberOf parsed
       else if truthy (optGet (Some r) ''id'') then toNumber rt (optGet (Some r) ''id'')
       else Fin 0) =
   (case timeOf rt t of Some n \<Rightarrow> n | None \<Rightarrow> idOrZero rt r)"
proof (cases "truthy t")
  case False
  then show ?thesis
    by (simp add: timeOf_def idOrZero_optGet numberIsFinite_def)
next
  case True
  show ?thesis
  proof (cases "isNumber t")
    case True
    then obtain n where "t = Some (JNum n)"
      by (auto simp: isNumber_def split: option.splits json.splits)
    then show ?thesis using \<open>truthy t\<close>
      by (cases n) (simp_all add: timeOf_def idOrZero_optGet numberIsFinite_def
          numberIsNaN_def numberOf_def isNumber_def)
  next
    case False
    then have nn: "(case t of Some (JNum n) \<Rightarrow> n | _ \<Rightarrow> dateParse rt (jsString rt t)) =
        dateParse rt (jsString rt t)"
      by (auto simp: isNumber_def split: option.splits json.splits)
    show ?thesis using \<open>truthy t\<close> False
      by (cases "dateParse rt (jsString rt t)")
         (simp_all add: timeOf_def nn idOrZero_optGet numberIsFinite_def numberIsNaN_def
            numberOf_def)
  qed
qed

lemma timeOf_nullish: "isNullish t \<Longrightarrow> timeOf rt t = None"
  by (auto simp: isNullish_def timeOf_def)

lemma rowTimestamp_resolveBy: "rowTimestamp rt r = resolveBy rt (specPriority @ [[''ts'']]) r"
proof -
  define t where "t = nullish (optGet (optGet (Some r) ''wagonRaw'') ''time'')
               (nullish (optGet (Some r) ''time'')
                 (nullish (optGet (Some r) ''finalizedAt'')
                   (nullish (optGet (Some r) ''createdAt'')
                     (nullish (optGet (Some r) ''ts'') (Some JNull)))))"
  have l: "rowTimestamp rt r = (case timeOf rt t of Some n \<Rightarrow> n | None \<Rightarrow> idOrZero rt r)"
    unfolding rowTimestamp_def t_def[symmetric] using chosen_timeOf[of t rt r]
    by (simp add: Let_def)
  have paths: "map (readPath r) (specPriority @ [[''ts'']]) =
      [optGet (optGet (Some r) ''wagonRaw'') ''time'', optGet (Some r) ''time'',
       optGet (Some r) ''finalizedAt'', optGet (Some r) ''createdAt'', optGet (Some r) ''ts'']"
    by (simp add: specPriority_def readPath_def)
  have "resolveBy rt (specPriority @ [[''ts'']]) r =
      (if isNullish t then idOrZero rt r
       else case timeOf rt t of Some n \<Rightarrow> n | None \<Rightarrow> idOrZero rt r)"
    unfolding resolveBy_def paths find_chain t_def[symmetric] by (simp add: Let_def)
  also have "\<dots> = (case timeOf rt t of Some n \<Rightarrow> n | None \<Rightarrow> idOrZero rt r)"
    by (simp add: timeOf_nullish)
  finally show ?thesis using l by simp
qed

lemma rowTimestamp_NaN:
  assumes "rowTimestamp rt r = NaN"
  shows "truthy (getProp r ''id'') \<and> toNumber rt (getProp r ''id'') = NaN"
proof -
  have "resolveBy rt (specPriority @ [[''ts'']]) r = NaN"
    using assms rowTimestamp_resolveBy by simp
  moreover have "timeOf rt t \<noteq> Some NaN" for t
    by (auto simp: timeOf_def split: jsnum.splits)
  ultimately have "idOrZero rt r = NaN"
    by (auto simp: resolveBy_def split: option.splits)
  then show ?thesis
    by (auto simp: idOrZero_def split: if_splits)
qed

text \<open>The timestamps of the example rows.\<close>

lemma rowTimestamp_row1: "rowTimestamp rt row1 = Fin 1000"
  by (simp add: rowTimestamp_def row1_def optGet_def nullish_def isNullish_def isNumber_def
      numberIsFinite_def numberIsNaN_def numberOf_def)

lemma rowTimestamp_row2: "rowTimestamp rt row2 = Fin 2000"
  by (simp add: rowTimestamp_def row2_def optGet_def nullish_def isNullish_def isNumber_def
      numberIsFinite_def numberIsNaN_def numberOf_def)

lemma rowTimestamp_rowTs: "rowTimestamp rt rowTs = Fin 5000"
  by (simp add: rowTimestamp_def rowTs_def optGet_def nullish_def isNullish_def isNumber_def
      numberIsFinite_def numberIsNaN_def numberOf_def)

lemma rowTimestamp_rowX: "rowTimestamp plainRuntime rowX = NaN"
  by (simp add: rowTimestamp_def rowX_def optGet_def nullish_def isNullish_def isNumber_def
      numberIsFinite_def numberIsNaN_def numberOf_def toNumber_def plainRuntime_def)

text \<open>A well-formed answer of the backend, and what \<open>fetchLeft\<close> makes of it.\<close>

lemma usable_response: "usable (response rows buf)"
  by (simp add: usable_def response_def optGet_def)

lemma data_response:
  "optGet (optGet (response rows buf) ''data'') ''rows'' = Some (JArr rows)"
  "optGet (optGet (response rows buf) ''data'') ''pendingContainers'' = Some (JArr [])"
  "optGet (optGet (response rows buf) ''data'') ''buffer'' = buf"
  by (cases buf; simp add: response_def optGet_def)+

lemma fetchLeft_response:
  "fetchLeft rt p buf (Resolved (response rows b)) w =
     (w\<lparr>leftRows := sortRowsDesc rt (Some (JArr rows)), leftPending := Some (JArr []),
        buffer := nullish b buf, requests := requests w @ [leftSequenceUrl p]\<rparr>, None)"
  by (simp add: fetchLeft_def settleLeft_def leftTry_def tryCatch_def axiosGet_def
      usable_response data_response orElse_def Let_def)

lemma sort_scenario: "sortRowsDesc rt (Some (JArr [row1, row2])) = [row2, row1]"
  by (simp add: sortRowsDesc_def arraySort_def sortsAfter_compareRows rowTimestamp_row1
      rowTimestamp_row2)

lemma sort_with_nan:
  "sortRowsDesc plainRuntime (Some (JArr [row1, rowX, row2])) = [row1, rowX, row2]"
  by (simp add: sortRowsDesc_def arraySort_def sortsAfter_compareRows rowTimestamp_row1
      rowTimestamp_row2 rowTimestamp_rowX)

lemma filterFn_no_filter: "filterFn rt [] False row = truthy (Some row)"
  by (simp add: filterFn_def)

lemma truthy_rows: "truthy (Some row1)" "truthy (Some row2)"
  by (simp_all add: row1_def row2_def)

lemma scenario_view:
  "filteredLeft rt (fst (fetchLeft rt p buf (Resolved scenarioResponse) initialSession)) =
     [row2, row1]"
  by (simp add: scenarioResponse_def fetchLeft_response filteredLeft_def sort_scenario
      initialSession_def filterFn_no_filter truthy_rows)

section \<open>Lemmas on the fetches\<close>

text \<open>Each continuation as one update of the session; none lets a rejection through.\<close>

lemma settleLeft_eq:
  "settleLeft rt buf out w =
     ((case out of
         Rejected err \<Rightarrow>
           consoleWrite LevelError ''fetchLeft err'' (orElse (optGet err ''message'') err) w
       | Resolved r \<Rightarrow>
           if usable r
           then w\<lparr>leftRows :=
                    sortRowsDesc rt (orElse (optGet (optGet r ''data'') ''rows'') (Some (JArr []))),
                  leftPending :=
                    orElse (optGet (optGet r ''data'') ''pendingContainers'') (Some (JArr [])),
                  buffer := nullish (optGet (optGet r ''data'') ''buffer'') buf\<rparr>
           else w), None)"
  by (simp add: settleLeft_def leftTry_def tryCatch_def Let_def split: outcome.splits)

lemma settleRight_eq:
  "settleRight rt buf out w =
     ((case out of
         Rejected err \<Rightarrow>
           consoleWrite LevelError ''fetchRight err'' (orElse (optGet err ''message'') err) w
       | Resolved r \<Rightarrow>
           if usable r
           then (consoleWrite LevelLog [] r w)
                 \<lparr>rightRows :=
                    sortRowsDesc rt (orElse (optGet (optGet r ''data'') ''rows'') (Some (JArr []))),
                  rightPending :=
                    orElse (optGet (optGet r ''data'') ''pendingContainers'') (Some (JArr [])),
                  buffer := nullish (optGet (optGet r ''data'') ''buffer'') buf\<rparr>
           else consoleWrite LevelLog [] r w), None)"
  by (simp add: settleRight_def rightTry_def tryCatch_def Let_def split: outcome.splits)


lemma settleAll_eq:
  "settleAll rt buf net w =
    ((case arrival net of
        LeftFirst \<Rightarrow>
          fst (settleRight rt buf (rightOutcome net) (fst (settleLeft rt buf (leftOutcome net) w)))
      | RightFirst \<Rightarrow>
          fst (settleLeft rt buf (leftOutcome net) (fst (settleRight rt buf (rightOutcome net) w)))),
     None)"
  by (cases "arrival net") (simp_all add: settleAll_def settleLeft_eq settleRight_eq)



lemma laneState_frame [simp]:
  "laneState l (consoleWrite lv s v w) = laneState l w"
  "laneState l (axiosGet u w) = laneState l w"
  by (cases l; simp add: laneState_def consoleWrite_def axiosGet_def)+







text \<open>A lane's continuation leaves the other lane's rows and pending items alone.\<close>

lemma settleLeft_right_lane:
  "rightRows (fst (settleLeft rt buf out w)) = rightRows w"
  "rightPending (fst (settleLeft rt buf out w)) = rightPending w"
  by (simp_all add: settleLeft_eq consoleWrite_def split: outcome.splits)

lemma settleRight_left_lane:
  "leftRows (fst (settleRight rt buf out w)) = leftRows w"
  "leftPending (fst (settleRight rt buf out w)) = leftPending w"
  by (simp_all add: settleRight_eq consoleWrite_def split: outcome.splits)






text \<open>The continuations on a well-formed answer.\<close>

lemma settleLeft_response:
  "settleLeft rt buf (Resolved (response rows b)) w =
     (w\<lparr>leftRows := sortRowsDesc rt (Some (JArr rows)), leftPending := Some (JArr []),
        buffer := nullish b buf\<rparr>, None)"
  by (simp add: settleLeft_eq usable_response data_response orElse_def)

lemma settleRight_response:
  "settleRight rt buf (Resolved (response rows b)) w =
     ((consoleWrite LevelLog [] (response rows b) w)
        \<lparr>rightRows := sortRowsDesc rt (Some (JArr rows)), rightPending := Some (JArr []),
         buffer := nullish b buf\<rparr>, None)"
  by (simp add: settleRight_eq usable_response data_response orElse_def)



text \<open>With no buffer in the answer, the buffer becomes what the closure holds.\<close>

lemma buffer_from_closure:
  "buffer (fst (fetchLeft rt p buf (Resolved (response rows None)) w)) = buf"
  "buffer (fst (fetchRight rt p buf (Resolved (response rows None)) w)) = buf"
  by (simp_all add: fetchLeft_def fetchRight_def settleLeft_response settleRight_response
      nullish_def isNullish_def)

text \<open>What the fetches leave alone, and the requests they send.\<close>

lemma settleLeft_frame:
  "pollRef (fst (settleLeft rt buf out w)) = pollRef w"
  "timers (fst (settleLeft rt buf out w)) = timers w"
  "requests (fst (settleLeft rt buf out w)) = requests w"
  by (simp_all add: settleLeft_eq consoleWrite_def split: outcome.splits)

lemma settleRight_frame:
  "pollRef (fst (settleRight rt buf out w)) = pollRef w"
  "timers (fst (settleRight rt buf out w)) = timers w"
  "requests (fst (settleRight rt buf out w)) = requests w"
  by (simp_all add: settleRight_eq consoleWrite_def split: outcome.splits)

lemma settleAll_frame:
  "pollRef (fst (settleAll rt buf net w)) = pollRef w"
  "timers (fst (settleAll rt buf net w)) = timers w"
  "requests (fst (settleAll rt buf net w)) = requests w"
  by (cases "arrival net"; simp add: settleAll_eq settleLeft_frame settleRight_frame)+

lemma axiosGet_frame:
  "pollRef (axiosGet u w) = pollRef w" "timers (axiosGet u w) = timers w"
  "requests (axiosGet u w) = requests w @ [u]"
  "rightRows (axiosGet u w) = rightRows w" "rightPending (axiosGet u w) = rightPending w"
  "leftRows (axiosGet u w) = leftRows w" "leftPending (axiosGet u w) = leftPending w"
  by (simp_all add: axiosGet_def)

lemma fetchLeft_frame:
  "requests (fst (fetchLeft rt p buf out w)) = requests w @ [leftSequenceUrl p]"
  "rightRows (fst (fetchLeft rt p buf out w)) = rightRows w"
  "rightPending (fst (fetchLeft rt p buf out w)) = rightPending w"
  by (simp_all add: fetchLeft_def settleLeft_frame settleLeft_right_lane axiosGet_frame)

lemma fetchRight_frame:
  "requests (fst (fetchRight rt p buf out w)) = requests w @ [rightSequenceUrl p]"
  "leftRows (fst (fetchRight rt p buf out w)) = leftRows w"
  "leftPending (fst (fetchRight rt p buf out w)) = leftPending w"
  by (simp_all add: fetchRight_def settleRight_frame settleRight_left_lane axiosGet_frame)

lemma fetchAll_frame:
  "pollRef (fst (fetchAll rt p buf net w)) = pollRef w"
  "timers (fst (fetchAll rt p buf net w)) = timers w"
  "requests (fst (fetchAll rt p buf net w)) = requests w @ [leftSequenceUrl p, rightSequenceUrl p]"
  by (simp_all add: fetchAll_def issueAll_def settleAll_frame axiosGet_frame)

lemma fire_frame:
  "pollRef (fire rt p buf i net w) = pollRef w"
  "timers (fire rt p buf i net w) = timers w"
  by (cases i; simp add: fire_def fetchLeft_def fetchRight_def fetchAll_def issueAll_def
        settleLeft_frame settleRight_frame settleAll_frame axiosGet_frame)+

section \<open>Lemmas on the filter and the export\<close>





lemma filterFn_examples:
  "filterFn rt [] False rowFinal" "filterFn rt [] False rowTentative"
  "\<not> filterFn rt [] True rowFinal" "filterFn rt [] True rowTentative"
  by (simp_all add: filterFn_def rowFinal_def rowTentative_def optGet_def)










section \<open>Lemmas on the scheduler\<close>

lemma run_Nil: "run rt p [] w = w"
  by (simp add: run_def)

lemma run_Cons: "run rt p (ev # evs) w = run rt p evs (step rt p ev w)"
  by (simp add: run_def)

lemma run_snoc: "run rt p (evs @ [ev]) w = step rt p ev (run rt p evs w)"
  by (simp add: run_def)

lemma effectBuffer_null: "effectBuffer = Some JNull"
  by (simp add: effectBuffer_def initialSession_def)

lemma default_props:
  "pollInterval (defaults noAttrs) = 5000"
  "leftSequenceUrl (defaults noAttrs) = ''http://10.40.40.215:3000/api/sequence''"
  "rightSequenceUrl (defaults noAttrs) = ''http://10.40.40.215:3000/api/sequence/right''"
  by (simp_all add: defaults_def noAttrs_def)

lemma initial_refs:
  "pollRef initialSession = None" "timers initialSession = []" "nextHandle initialSession = 1"
  by (simp_all add: initialSession_def)

lemma startPolling_idem: "startPolling p (startPolling p w) = startPolling p w"
  by (simp add: startPolling_def)

lemma pollingInv_cong:
  "pollRef w' = pollRef w \<Longrightarrow> timers w' = timers w \<Longrightarrow> pollingInv p w' = pollingInv p w"
  by (simp add: pollingInv_def split: option.splits)

text \<open>Every step keeps the invariant, so every run from the initial session has it.\<close>

lemma step_inv: "pollingInv p w \<Longrightarrow> pollingInv p (step rt p ev w)"
proof (cases ev)
  case (Mount io)
  assume "pollingInv p w"
  then have "pollingInv p (issueAll p (w\<lparr>mounted := True\<rparr>))"
    by (simp add: pollingInv_def issueAll_def axiosGet_def split: option.splits)
  then show ?thesis using Mount
    by (cases io)
       (auto simp: step_def mount_def Let_def pollingInv_def startPolling_def consoleWrite_def
          split: option.splits)
next
  case (InitialSettled net)
  assume i: "pollingInv p w"
  obtain w1 e where s: "settleAll rt effectBuffer net w = (w1, e)" by force
  then have "pollRef w1 = pollRef w" "timers w1 = timers w"
    using settleAll_frame(1,2)[of rt effectBuffer net w] by simp_all
  with i s InitialSettled show ?thesis
    by (cases e) (auto simp: step_def pollingInv_def split: option.splits)
next
  case (ConnectError err)
  assume "pollingInv p w"
  then show ?thesis using ConnectError
    by (auto simp: step_def Let_def pollingInv_def startPolling_def consoleWrite_def
        split: option.splits)
next
  case (Disconnect reason)
  assume "pollingInv p w"
  then show ?thesis using Disconnect
    by (auto simp: step_def Let_def pollingInv_def startPolling_def consoleWrite_def
        split: option.splits)
next
  case (Notify name payload net)
  assume "pollingInv p w"
  then show ?thesis using Notify
    by (auto simp: step_def pollingInv_cong[OF fire_frame] split: option.splits)
next
  case (Tick h net)
  assume "pollingInv p w"
  then show ?thesis using Tick
    by (auto simp: step_def pollingInv_cong[OF fetchAll_frame(1,2)])
next
  case (RefreshClick net)
  assume "pollingInv p w"
  then show ?thesis using RefreshClick
    by (auto simp: step_def pollingInv_cong[OF fetchAll_frame(1,2)])
next
  case Unmount
  assume "pollingInv p w"
  then show ?thesis using Unmount
    by (auto simp: step_def cleanup_def clearInterval_def Let_def pollingInv_def
        split: option.splits)
qed (auto simp: step_def pollingInv_def consoleWrite_def split: option.splits)

lemma run_inv: "pollingInv p w \<Longrightarrow> pollingInv p (run rt p evs w)"
  unfolding run_def by (induction evs arbitrary: w) (auto simp: step_inv)

lemma initial_inv: "pollingInv p initialSession"
  by (simp add: pollingInv_def initialSession_def)

lemma inv_at_most_one: "pollingInv p w \<Longrightarrow> length (timers w) \<le> 1"
  by (auto simp: pollingInv_def split: option.splits)

lemma unmount_clears: "pollingInv p w \<Longrightarrow> timers (step rt p Unmount w) = []"
  by (auto simp: step_def cleanup_def clearInterval_def Let_def pollingInv_def
      split: option.splits)

text \<open>No step but the teardown takes a timer away.\<close>

lemma step_keeps_timers: "ev \<noteq> Unmount \<Longrightarrow> prefix (timers w) (timers (step rt p ev w))"
proof (cases ev)
  case (Mount io)
  then show ?thesis
    by (cases io)
       (auto simp: step_def mount_def Let_def startPolling_def consoleWrite_def issueAll_def
          axiosGet_def)
next
  case (InitialSettled net)
  obtain w1 e where s: "settleAll rt effectBuffer net w = (w1, e)" by force
  then have "timers w1 = timers w"
    using settleAll_frame(2)[of rt effectBuffer net w] by simp
  with s InitialSettled show ?thesis
    by (cases e) (auto simp: step_def)
next
  case (ConnectError err)
  then show ?thesis
    by (auto simp: step_def Let_def startPolling_def consoleWrite_def)
next
  case (Disconnect reason)
  then show ?thesis
    by (auto simp: step_def Let_def startPolling_def consoleWrite_def)
next
  case (Notify name payload net)
  then show ?thesis
    by (auto simp: step_def fire_frame split: option.splits)
next
  case (Tick h net)
  then show ?thesis by (auto simp: step_def fetchAll_frame)
next
  case (RefreshClick net)
  then show ?thesis by (auto simp: step_def fetchAll_frame)
next
  case Unmount
  assume "ev \<noteq> Unmount"
  with Unmount show ?thesis by simp
qed (auto simp: step_def consoleWrite_def)

lemma mount_throw:
  "status (step rt p (Mount (IoThrows err)) w) = ''polling''"
  "pollRef w = None \<Longrightarrow>
     timers (step rt p (Mount (IoThrows err)) w) = timers w @ [(nextHandle w, pollInterval p)]"
  "pollRef w = None \<Longrightarrow> pollRef (step rt p (Mount (IoThrows err)) w) = Some (nextHandle w)"
  by (simp_all add: step_def mount_def Let_def startPolling_def consoleWrite_def issueAll_def
      axiosGet_def)

lemma connect_keeps:
  "timers (step rt p (Connect sid) w) = timers w"
  "pollRef (step rt p (Connect sid) w) = pollRef w"
  by (simp_all add: step_def consoleWrite_def)

lemma tick_fetches:
  "h \<in> fst ` set (timers w) \<Longrightarrow>
     step rt p (Tick h net) w = fst (fetchAll rt p effectBuffer net w)"
  by (simp add: step_def)

section \<open>The claims\<close>

subsection \<open>C1: the canonical timestamp\<close>

text \<open>
  C1, on the code. The comment above \<^verbatim>\<open>rowTimestamp\<close> gives the order of the
  specification: \<^verbatim>\<open>wagonRaw.time\<close>, then \<^verbatim>\<open>time\<close>, then \<^verbatim>\<open>finalizedAt\<close>, then \<^verbatim>\<open>createdAt\<close>, then the
  id. The chain below the comment has one more field, \<^verbatim>\<open>ts\<close>, before the id. On the row
  \<^verbatim>\<open>{id: 7, ts: 5000}\<close>, which has none of the four fields, the stated order resolves to the
  id, \<open>7\<close>, and the function answers \<open>5000\<close>. And the fallback to the id is not checked
  as the parsed time is: on the row \<^verbatim>\<open>{id: 'x'}\<close> the function answers \<open>NaN\<close>.
\<close>

theorem rowTimestamp_ts_before_id:
  "rowTimestamp rt rowTs = Fin 5000 \<and> resolveBy rt specPriority rowTs = Fin 7 \<and>
   rowTimestamp plainRuntime rowX = NaN"
proof -
  have "resolveBy rt specPriority rowTs = Fin 7"
    by (simp add: resolveBy_def specPriority_def readPath_def rowTs_def optGet_def
        isNullish_def idOrZero_def toNumber_def)
  then show ?thesis by (simp add: rowTimestamp_rowTs rowTimestamp_rowX)
qed

subsection \<open>C2: newest first, stable\<close>

text \<open>
  C2, on the code. In the scenario (a left fetch answered with rows \<^verbatim>\<open>{id:1,time:1000}\<close>,
  \<^verbatim>\<open>{id:2,time:2000}\<close> and buffer B1, from the initial state) the unpaged view is
  \<^verbatim>\<open>[id:2, id:1]\<close>. But the row \<^verbatim>\<open>{id: 'x'}\<close> has the timestamp \<open>NaN\<close>, and in the array
  \<^verbatim>\<open>[{id:1,time:1000}, {id:'x'}, {id:2,time:2000}]\<close> every comparison between neighbours, in
  either direction, answers \<open>NaN\<close>, which the sort reads as "equal": the array comes back
  as it is, the row of time \<open>2000\<close> behind the row of time \<open>1000\<close>.
\<close>

theorem sortRowsDesc_nan_row_unsorted:
  "filteredLeft rt (fst (fetchLeft rt p buf (Resolved scenarioResponse) initialSession)) =
     [row2, row1] \<and>
   rowTimestamp plainRuntime rowX = NaN \<and>
   compareRows plainRuntime row1 rowX = NaN \<and> compareRows plainRuntime rowX row1 = NaN \<and>
   compareRows plainRuntime rowX row2 = NaN \<and> compareRows plainRuntime row2 rowX = NaN \<and>
   sortRowsDesc plainRuntime (Some (JArr [row1, rowX, row2])) = [row1, rowX, row2] \<and>
   rowTimestamp plainRuntime row1 = Fin 1000 \<and> rowTimestamp plainRuntime row2 = Fin 2000 \<and>
   jsLess (rowTimestamp plainRuntime row1) (rowTimestamp plainRuntime row2)"
  by (simp add: scenario_view sort_with_nan compareRows_def rowTimestamp_row1
      rowTimestamp_row2 rowTimestamp_rowX)

subsection \<open>C3: normalization is non-mutating and idempotent\<close>



subsection \<open>C4: a fetch contains its failures\<close>




subsection \<open>C5: the filter predicate\<close>




subsection \<open>C6: which changes reset the pages\<close>

text \<open>
  C6, on the code. A new search text and a new page size set both page indices to 0. The
  tentative-only checkbox does not: its handler only stores the flag, and both page
  indices stay. On the session that shows page 1 of eleven rows, ten to a page, turning
  the filter on leaves one row in the view and the page index at 1, so the page shown
  is empty.
\<close>

theorem tentative_toggle_keeps_pages:
  "pageLeft (step rt p (TentativeChange c) w) = pageLeft w \<and>
   pageRight (step rt p (TentativeChange c) w) = pageRight w \<and>
   pageLeft (step rt p (QueryChange v) w) = 0 \<and> pageRight (step rt p (QueryChange v) w) = 0 \<and>
   pageLeft (step rt p (PageSizeChange n) w) = 0 \<and>
   pageRight (step rt p (PageSizeChange n) w) = 0 \<and>
   pagedLeft rt session6 = [rowTentative] \<and>
   pageLeft (step rt p (TentativeChange True) session6) = 1 \<and>
   pageRight (step rt p (TentativeChange True) session6) = 2 \<and>
   filteredLeft rt (step rt p (TentativeChange True) session6) = [rowTentative] \<and>
   pagedLeft rt (step rt p (TentativeChange True) session6) = []"
proof -
  have a: "pagedLeft rt session6 = [rowTentative]"
    by (simp add: pagedLeft_def filteredLeft_def session6_def initialSession_def slice_def
        filterFn_examples)
  have b: "filteredLeft rt (step rt p (TentativeChange True) session6) = [rowTentative]"
    by (simp add: step_def filteredLeft_def session6_def initialSession_def filterFn_examples)
  have c: "pagedLeft rt (step rt p (TentativeChange True) session6) = []"
    unfolding pagedLeft_def b by (simp add: step_def session6_def initialSession_def slice_def)
  have d: "pageLeft (step rt p (TentativeChange True) session6) = 1"
    "pageRight (step rt p (TentativeChange True) session6) = 2"
    by (simp_all add: step_def session6_def initialSession_def)
  show ?thesis using a b c d by (simp add: step_def)
qed

subsection \<open>C7: the CSV export\<close>




subsection \<open>C8: the buffer when the answer has none\<close>

text \<open>
  C8, on the code. When a usable answer carries no buffer, the buffer becomes the value
  the fetch function's closure holds, not the value the state cell has at that moment.
  For every fetch the effect starts (socket events, polling, the initial refresh) the
  closure is the first render's, whose buffer is \<^verbatim>\<open>null\<close>. So after a first refresh has
  set the buffer to B1, the event \<^verbatim>\<open>sequence:right:changed\<close> answered without a buffer sets
  it to \<^verbatim>\<open>null\<close>.
\<close>

theorem stale_buffer_cleared:
  "buffer (fst (fetchLeft rt p buf (Resolved (response rows None)) w)) = buf \<and>
   buffer (fst (fetchRight rt p buf (Resolved (response rows None)) w)) = buf \<and>
   buffer (run rt p [Mount IoReturns, InitialSettled netB1] initialSession) =
     Some (JStr ''B1'') \<and>
   buffer (run rt p [Mount IoReturns, InitialSettled netB1,
                     Notify ''sequence:right:changed'' None netNoBuffer] initialSession) =
     Some JNull"
proof -
  define w1 where "w1 = run rt p [Mount IoReturns, InitialSettled netB1] initialSession"
  have b: "buffer w1 = Some (JStr ''B1'')" and s: "socketRef w1"
    unfolding w1_def
    by (simp_all add: run_Cons run_Nil step_def mount_def Let_def settleAll_eq netB1_def
        scenarioResponse_def settleLeft_response settleRight_response nullish_def isNullish_def
        issueAll_def axiosGet_def consoleWrite_def initialSession_def)
  have "run rt p [Mount IoReturns, InitialSettled netB1,
                  Notify ''sequence:right:changed'' None netNoBuffer] initialSession =
        step rt p (Notify ''sequence:right:changed'' None netNoBuffer) w1"
    by (simp add: w1_def run_Cons run_Nil)
  also have "buffer \<dots> = Some JNull"
    using s
    by (simp add: step_def onSocketEvent_def fire_def netNoBuffer_def buffer_from_closure
        effectBuffer_null)
  finally show ?thesis using b by (simp add: w1_def buffer_from_closure)
qed

subsection \<open>C9: the update event\<close>

text \<open>
  C9. Once the socket is set up, an \<^verbatim>\<open>update\<close> event whose payload has the side
  \<^verbatim>\<open>'left'\<close> runs the left fetch and nothing else: one request goes out, to the left lane's
  address, and the right lane's rows and pending items are untouched; the same with the
  sides exchanged for \<^verbatim>\<open>'right'\<close>. A payload that is absent (or falsy), or whose side is
  neither of the two, runs the full refresh, which sends both requests.
\<close>

theorem update_event_lane_scoped:
  assumes "socketRef w"
  shows
  "(truthy payload \<and> optGet payload ''side'' = Some (JStr ''left'') \<longrightarrow>
      step rt p (Notify ''update'' payload net) w =
        fst (fetchLeft rt p effectBuffer (leftOutcome net) w) \<and>
      requests (step rt p (Notify ''update'' payload net) w) =
        requests w @ [leftSequenceUrl p] \<and>
      rightRows (step rt p (Notify ''update'' payload net) w) = rightRows w \<and>
      rightPending (step rt p (Notify ''update'' payload net) w) = rightPending w) \<and>
   (truthy payload \<and> optGet payload ''side'' = Some (JStr ''right'') \<longrightarrow>
      step rt p (Notify ''update'' payload net) w =
        fst (fetchRight rt p effectBuffer (rightOutcome net) w) \<and>
      requests (step rt p (Notify ''update'' payload net) w) =
        requests w @ [rightSequenceUrl p] \<and>
      leftRows (step rt p (Notify ''update'' payload net) w) = leftRows w \<and>
      leftPending (step rt p (Notify ''update'' payload net) w) = leftPending w) \<and>
   (\<not> truthy payload \<or>
    (optGet payload ''side'' \<noteq> Some (JStr ''left'') \<and>
     optGet payload ''side'' \<noteq> Some (JStr ''right'')) \<longrightarrow>
      step rt p (Notify ''update'' payload net) w = fst (fetchAll rt p effectBuffer net w) \<and>
      requests (step rt p (Notify ''update'' payload net) w) =
        requests w @ [leftSequenceUrl p, rightSequenceUrl p])"
  using assms
  by (auto simp: step_def onSocketEvent_def onUpdate_def fire_def fetchLeft_frame
      fetchRight_frame fetchAll_frame)

text \<open>The theorem with the payloads \<^verbatim>\<open>{side: 'left'}\<close>, \<^verbatim>\<open>{side: 'right'}\<close> and \<^verbatim>\<open>undefined\<close>.\<close>

theorem update_event_lane_scoped_witness:
  "socketRef session1 \<and> truthy payloadLeft \<and>
   optGet payloadLeft ''side'' = Some (JStr ''left'') \<and> \<not> truthy None \<and>
   requests (step plainRuntime (defaults noAttrs) (Notify ''update'' payloadLeft netB1) session1) =
     [''http://10.40.40.215:3000/api/sequence''] \<and>
   rightRows (step plainRuntime (defaults noAttrs) (Notify ''update'' payloadLeft netB1) session1) =
     [row2] \<and>
   leftRows (step plainRuntime (defaults noAttrs) (Notify ''update'' payloadLeft netB1) session1) =
     [row2, row1] \<and>
   requests (step plainRuntime (defaults noAttrs) (Notify ''update'' None netB1) session1) =
     [''http://10.40.40.215:3000/api/sequence'', ''http://10.40.40.215:3000/api/sequence/right''] \<and>
   truthy payloadRight \<and> optGet payloadRight ''side'' = Some (JStr ''right'') \<and>
   requests (step plainRuntime (defaults noAttrs) (Notify ''update'' payloadRight netB1) session1) =
     [''http://10.40.40.215:3000/api/sequence/right''] \<and>
   leftRows (step plainRuntime (defaults noAttrs) (Notify ''update'' payloadRight netB1) session1) =
     [row1]"
proof -
  have s: "socketRef session1" "requests session1 = []" "rightRows session1 = [row2]"
    "leftRows session1 = [row1]"
    by (simp_all add: session1_def initialSession_def)
  have t: "truthy payloadLeft" "optGet payloadLeft ''side'' = Some (JStr ''left'')"
    "truthy payloadRight" "optGet payloadRight ''side'' = Some (JStr ''right'')"
    by (simp_all add: payloadLeft_def payloadRight_def optGet_def)
  have l: "leftRows (fst (fetchLeft plainRuntime (defaults noAttrs) effectBuffer
      (leftOutcome netB1) session1)) = [row2, row1]"
    by (simp add: netB1_def scenarioResponse_def fetchLeft_response sort_scenario)
  show ?thesis
    using update_event_lane_scoped[OF s(1), of payloadLeft plainRuntime "defaults noAttrs" netB1]
      update_event_lane_scoped[OF s(1), of None plainRuntime "defaults noAttrs" netB1]
      update_event_lane_scoped[OF s(1), of payloadRight plainRuntime "defaults noAttrs" netB1]
      s t l
    by (simp add: default_props fetchLeft_frame fetchRight_frame fetchAll_frame)
qed

subsection \<open>C10: the polling fallback\<close>

text \<open>
  C10. When \<^verbatim>\<open>io(...)\<close> throws, the status is \<^verbatim>\<open>polling\<close> when the effect returns, and if no
  polling timer was stored one is started with the period \<^verbatim>\<open>pollInterval\<close> and stored in
  \<^verbatim>\<open>pollRef\<close>; from the initial session that is the only timer, and the period is 5000
  when the attribute is left out. A tick of a running timer runs \<^verbatim>\<open>fetchAll\<close>. Starting
  twice is starting once. Whatever happens in a session, at most one timer runs, the one
  \<^verbatim>\<open>pollRef\<close> holds. No event but the teardown takes a timer away, a reconnect of the
  socket in particular leaves timers and \<^verbatim>\<open>pollRef\<close> as they are, and after the teardown
  no timer runs.
\<close>

theorem polling_fallback:
  "status (step rt p (Mount (IoThrows err)) w) = ''polling'' \<and>
   (pollRef w = None \<longrightarrow>
      timers (step rt p (Mount (IoThrows err)) w) = timers w @ [(nextHandle w, pollInterval p)] \<and>
      pollRef (step rt p (Mount (IoThrows err)) w) = Some (nextHandle w)) \<and>
   timers (run rt p [Mount (IoThrows err)] initialSession) = [(1, pollInterval p)] \<and>
   pollInterval (defaults noAttrs) = 5000 \<and>
   (h \<in> fst ` set (timers w) \<longrightarrow>
      step rt p (Tick h net) w = fst (fetchAll rt p effectBuffer net w)) \<and>
   startPolling p (startPolling p w) = startPolling p w \<and>
   pollingInv p (run rt p evs initialSession) \<and>
   length (timers (run rt p evs initialSession)) \<le> 1 \<and>
   (ev \<noteq> Unmount \<longrightarrow> prefix (timers w) (timers (step rt p ev w))) \<and>
   timers (step rt p (Connect sid) w) = timers w \<and>
   pollRef (step rt p (Connect sid) w) = pollRef w \<and>
   timers (run rt p (evs @ [Unmount]) initialSession) = []"
proof -
  have i: "pollingInv p (run rt p evs initialSession)"
    by (simp add: run_inv initial_inv)
  then have u: "timers (run rt p (evs @ [Unmount]) initialSession) = []"
    by (simp add: run_snoc unmount_clears)
  have m: "timers (run rt p [Mount (IoThrows err)] initialSession) = [(1, pollInterval p)]"
    using initial_refs by (simp add: run_Cons run_Nil mount_throw)
  show ?thesis
    using i u m inv_at_most_one[OF i] tick_fetches[of h w rt p net]
      step_keeps_timers[of ev w rt p]
    by (simp add: default_props startPolling_idem mount_throw connect_keeps)
qed

text \<open>
  The theorem from the initial session with the default attributes. When the setup throws,
  one timer of period 5000 runs and its tick sends the two requests of a full refresh.
  When the setup succeeds and the connection then fails, drops and comes back, the one
  timer the first failure started still runs after the reconnect, and the teardown
  clears it.
\<close>

theorem polling_fallback_witness:
  "pollRef initialSession = None \<and>
   status (step plainRuntime (defaults noAttrs) (Mount (IoThrows thrown)) initialSession) =
     ''polling'' \<and>
   timers (step plainRuntime (defaults noAttrs) (Mount (IoThrows thrown)) initialSession) =
     [(1, 5000)] \<and>
   requests (step plainRuntime (defaults noAttrs) (Tick 1 netB1)
      (step plainRuntime (defaults noAttrs) (Mount (IoThrows thrown)) initialSession)) =
     [''http://10.40.40.215:3000/api/sequence'', ''http://10.40.40.215:3000/api/sequence/right'',
      ''http://10.40.40.215:3000/api/sequence'', ''http://10.40.40.215:3000/api/sequence/right''] \<and>
   timers (run plainRuntime (defaults noAttrs)
      [Mount IoReturns, ConnectError thrown, Disconnect None, Connect None] initialSession) =
     [(1, 5000)] \<and>
   timers (run plainRuntime (defaults noAttrs)
      ([Mount IoReturns, ConnectError thrown, Disconnect None, Connect None] @ [Unmount])
      initialSession) = []"
proof -
  define w1 where
    "w1 = step plainRuntime (defaults noAttrs) (Mount (IoThrows thrown)) initialSession"
  define w2 where
    "w2 = run plainRuntime (defaults noAttrs) [Mount IoReturns, ConnectError thrown] initialSession"
  define w3 where "w3 = step plainRuntime (defaults noAttrs) (Disconnect None) w2"
  note n = initial_refs
  have t1: "timers w1 = [(1, 5000)]" and st: "status w1 = ''polling''"
    using polling_fallback[of plainRuntime "defaults noAttrs" thrown initialSession 1 netB1
        "[]" Unmount None] n
    by (simp_all add: w1_def)
  have r1: "requests w1 =
      [''http://10.40.40.215:3000/api/sequence'', ''http://10.40.40.215:3000/api/sequence/right'']"
    by (simp add: w1_def step_def mount_def Let_def startPolling_def consoleWrite_def
        issueAll_def axiosGet_def initialSession_def default_props)
  have "1 \<in> fst ` set (timers w1)" by (simp add: t1)
  then have tk: "step plainRuntime (defaults noAttrs) (Tick 1 netB1) w1 =
      fst (fetchAll plainRuntime (defaults noAttrs) effectBuffer netB1 w1)"
    using polling_fallback[of plainRuntime "defaults noAttrs" thrown w1 1 netB1 "[]" Unmount None]
    by simp
  have t2: "timers w2 = [(1, 5000)]"
    by (simp add: w2_def run_Cons run_Nil step_def mount_def Let_def startPolling_def
        consoleWrite_def issueAll_def axiosGet_def initialSession_def default_props)
  have e: "run plainRuntime (defaults noAttrs)
      [Mount IoReturns, ConnectError thrown, Disconnect None, Connect None] initialSession =
      step plainRuntime (defaults noAttrs) (Connect None) w3"
    by (simp add: run_Cons run_Nil w2_def w3_def)
  have p: "prefix (timers w2) (timers w3)"
    "prefix (timers w3) (timers (step plainRuntime (defaults noAttrs) (Connect None) w3))"
    using polling_fallback[of plainRuntime "defaults noAttrs" thrown w2 1 netB1 "[]"
        "Disconnect None" None]
      polling_fallback[of plainRuntime "defaults noAttrs" thrown w3 1 netB1 "[]"
        "Connect None" None]
    by (simp_all add: w3_def)
  have l: "length (timers (step plainRuntime (defaults noAttrs) (Connect None) w3)) \<le> 1"
    and u: "timers (run plainRuntime (defaults noAttrs)
      ([Mount IoReturns, ConnectError thrown, Disconnect None, Connect None] @ [Unmount])
      initialSession) = []"
    using polling_fallback[of plainRuntime "defaults noAttrs" thrown w1 1 netB1
        "[Mount IoReturns, ConnectError thrown, Disconnect None, Connect None]" Unmount None]
    by (simp_all add: e)
  have four: "timers (step plainRuntime (defaults noAttrs) (Connect None) w3) = [(1, 5000)]"
    using p l unfolding t2 by (auto simp: prefix_def)
  show ?thesis
    using n t1 st four tk r1 u
    by (simp add: w1_def[symmetric] e fetchAll_frame default_props)
qed

end
